theory Spec2Isabelle
  imports Complex_Main
begin

section \<open>The reproducibility notebook of probatus\<close>

text \<open>
  The repository file is \<^verbatim>\<open>docs/howto/reproducibility.ipynb\<close>: a Jupyter notebook of
  fifteen cells, seven of them code. The code is a straight-line Python script; every
  operation in it is a call into a library that is not part of the file (scikit-learn,
  numpy, \<^verbatim>\<open>probatus.feature_elimination\<close>). The last code cell carries the one
  recorded output of the notebook, a table of nine rows.

  The model keeps both parts as the file has them: the script as the statements of its
  code cells, in cell order, and the recorded output as a data frame. What the libraries
  compute is not in the file and is not modelled; the execution below tracks only which
  library each operation is delegated to and which names are bound when it runs.
\<close>

subsection \<open>The recorded table\<close>

text \<open>
  A cell of the table is an integer, a list of integers or a decimal number. The decimal
  numbers are kept as the three-digit numerals the notebook shows.
\<close>

datatype entry = IntEntry int | ListEntry "int list" | FloatEntry rat

text \<open>
  A data frame as the notebook renders it: the column names of the header and, for every
  row, its index label and its entries from left to right.
\<close>

record dataframe =
  columns :: "string list"
  body :: "(int \<times> entry list) list"

type_synonym row = "int \<times> entry list"

text \<open>The output of the last code cell (\<^verbatim>\<open>execution_count\<close> 19).\<close>

definition report_output :: dataframe where
  "report_output =
     \<lparr> columns = [''num_features'', ''eliminated_features'', ''val_metric_mean''],
       body =
         [ (1, [IntEntry 10, ListEntry [8, 9], FloatEntry (983 / 1000)]),
           (2, [IntEntry 8,  ListEntry [5],    FloatEntry (969 / 1000)]),
           (3, [IntEntry 7,  ListEntry [7],    FloatEntry (984 / 1000)]),
           (4, [IntEntry 6,  ListEntry [1],    FloatEntry (979 / 1000)]),
           (5, [IntEntry 5,  ListEntry [4],    FloatEntry (978 / 1000)]),
           (6, [IntEntry 4,  ListEntry [6],    FloatEntry (989 / 1000)]),
           (7, [IntEntry 3,  ListEntry [3],    FloatEntry (991 / 1000)]),
           (8, [IntEntry 2,  ListEntry [0],    FloatEntry (956 / 1000)]),
           (9, [IntEntry 1,  ListEntry [],     FloatEntry (969 / 1000)]) ] \<rparr>"

text \<open>
  Reading a row by column name. A column that the frame does not have, or a row that is
  too short for it, gives \<open>None\<close> (pandas raises \<^verbatim>\<open>KeyError\<close>).
\<close>

fun position :: "'a \<Rightarrow> 'a list \<Rightarrow> nat option" where
  "position x [] = None"
| "position x (y # ys) =
     (if x = y then Some 0 else map_option Suc (position x ys))"

definition entry_at :: "dataframe \<Rightarrow> string \<Rightarrow> row \<Rightarrow> entry option" where
  "entry_at df c r =
     (case position c (columns df) of
        None \<Rightarrow> None
      | Some i \<Rightarrow> if i < length (snd r) then Some (snd r ! i) else None)"



definition val_metric_mean :: "dataframe \<Rightarrow> row \<Rightarrow> rat option" where
  "val_metric_mean df r =
     (case entry_at df ''val_metric_mean'' r of Some (FloatEntry v) \<Rightarrow> Some v | _ \<Rightarrow> None)"



definition val_metric_mean_column :: "dataframe \<Rightarrow> rat option list" where
  "val_metric_mean_column df = map (val_metric_mean df) (body df)"


subsection \<open>The script\<close>

text \<open>
  The Python expressions and statements that occur in the code cells. Comments are not
  statements and are left out. A keyword argument is a pair of its name and its value.
\<close>

datatype expr =
    Name string
  | Attribute expr string
  | IntLit int
  | FloatLit rat
  | StrLit string
  | BoolLit bool
  | ListLit "expr list"
  | DictLit "(expr \<times> expr) list"
  | Call expr "expr list" "(string \<times> expr) list"
  | Subscript expr expr

datatype stmt =
    ImportFrom string string
  | ImportAs string string
  | Assign "string list" expr
  | Expr expr

text \<open>
  A notebook cell: a markdown cell (only its first line is kept, the prose is not
  executed), or a code cell with its \<^verbatim>\<open>execution_count\<close>, its statements and its
  recorded output, if it has one.
\<close>

datatype cell =
    Markdown string
  | Code nat "stmt list" "dataframe option"

definition notebook :: "cell list" where
  "notebook =
     [ Markdown ''# How to ensure reproducibility of the results'',
       Markdown ''This page describes how to make sure that the analysis that you perform using `probatus` is fully reproducible.'',
       Code 8
         [ ImportFrom ''sklearn.datasets'' ''make_classification'',
           Assign [''X'', ''y'']
             (Call (Name ''make_classification'') []
                [(''n_samples'', IntLit 100), (''n_features'', IntLit 10),
                 (''random_state'', IntLit 42)]) ]
         None,
       Markdown ''### Static data splits'',
       Code 9
         [ ImportFrom ''sklearn.model_selection'' ''StratifiedKFold'',
           ImportFrom ''sklearn.model_selection'' ''train_test_split'',
           Assign [''X_train'', ''X_test'', ''y_train'', ''y_test'']
             (Call (Name ''train_test_split'') [Name ''X'', Name ''y'']
                [(''random_state'', IntLit 42)]),
           Assign [''cv1''] (IntLit 5),
           Assign [''cv2'']
             (Call (Name ''StratifiedKFold'') []
                [(''n_splits'', IntLit 5), (''shuffle'', BoolLit True),
                 (''random_state'', IntLit 42)]) ]
         None,
       Markdown ''### Static classifier'',
       Code 10
         [ ImportFrom ''sklearn.ensemble'' ''RandomForestClassifier'',
           Assign [''clf'']
             (Call (Name ''RandomForestClassifier'') [] [(''random_state'', IntLit 42)]) ]
         None,
       Markdown ''### Static search CV for hyperparameter tuning'',
       Code 15
         [ ImportFrom ''sklearn.model_selection'' ''RandomizedSearchCV'',
           Assign [''param_grid'']
             (DictLit
                [(StrLit ''n_estimators'', ListLit [IntLit 5, IntLit 7, IntLit 10]),
                 (StrLit ''max_leaf_nodes'',
                    ListLit [IntLit 3, IntLit 5, IntLit 7, IntLit 10])]),
           Assign [''search'']
             (Call (Name ''RandomizedSearchCV'') [Name ''clf'', Name ''param_grid'']
                [(''n_iter'', IntLit 1), (''random_state'', IntLit 42)]) ]
         None,
       Markdown ''### Any other sources of randomness'',
       Markdown ''Before running `probatus` modules think about the inputs, and consider if there is any other type of randomness involved. If there is, one option to possibly solve the issue is setting the random seed at the beginning of the code'',
       Code 16
         [ ImportAs ''numpy'' ''np'',
           Expr (Call (Attribute (Attribute (Name ''np'') ''random'') ''seed'')
                   [IntLit 42] []) ]
         None,
       Markdown ''## Reproducibility in probatus'',
       Code 17
         [ ImportFrom ''probatus.feature_elimination'' ''ShapRFECV'',
           Assign [''shap_elimination'']
             (Call (Name ''ShapRFECV'') []
                [(''clf'', Name ''search''), (''step'', FloatLit (2 / 10)),
                 (''cv'', Name ''cv2''), (''scoring'', StrLit ''roc_auc''),
                 (''n_jobs'', IntLit 3), (''random_state'', IntLit 42)]),
           Assign [''report'']
             (Call (Attribute (Name ''shap_elimination'') ''fit_compute'')
                [Name ''X'', Name ''y''] []) ]
         None,
       Code 19
         [ Expr (Subscript (Name ''report'')
                   (ListLit [StrLit ''num_features'', StrLit ''eliminated_features'',
                             StrLit ''val_metric_mean''])) ]
         (Some report_output) ]"

subsection \<open>Which library an operation is delegated to\<close>

text \<open>
  The script defines no function of its own, so a name is bound either by an import, by
  the result of a call, or by a literal. The execution tracks, for every bound name,
  where its value comes from: a module (the name is imported from it, or the value was
  returned by a call into it), or a literal of the script itself.
\<close>

datatype origin = Library string | Local

text \<open>
  What the execution records: a call of a library function, with the module it belongs
  to and the function's name, and a subscription of an object that a library returned,
  with the module and the name of the object.
\<close>

datatype event = LibCall string string | LibIndex string string

type_synonym env = "(string \<times> origin) list"

type_synonym outcome = "(origin \<times> event list) option"

fun callee_name :: "expr \<Rightarrow> string option" where
  "callee_name (Name n) = Some n"
| "callee_name (Attribute e a) = Some a"
| "callee_name _ = None"

text \<open>Operands are evaluated from left to right; the first failure ends the evaluation.\<close>

fun in_order :: "outcome list \<Rightarrow> event list option" where
  "in_order [] = Some []"
| "in_order (None # rs) = None"
| "in_order (Some (_, evs) # rs) = map_option (\<lambda>evs'. evs @ evs') (in_order rs)"

text \<open>
  A call happens after its callee and its operands have been evaluated. Calling a value
  of the script itself is an error (\<^verbatim>\<open>TypeError\<close>): the script has no functions.
\<close>

definition call :: "expr \<Rightarrow> outcome \<Rightarrow> event list option \<Rightarrow> outcome" where
  "call f callee operands =
     (case (callee, operands, callee_name f) of
        (Some (Library m, evs), Some evs', Some c) \<Rightarrow>
          Some (Library m, evs @ evs' @ [LibCall m c])
      | _ \<Rightarrow> None)"

definition subscript :: "expr \<Rightarrow> outcome \<Rightarrow> outcome \<Rightarrow> outcome" where
  "subscript e obj key =
     (case (obj, key) of
        (Some (Library m, evs), Some (_, evs')) \<Rightarrow>
          map_option (\<lambda>c. (Library m, evs @ evs' @ [LibIndex m c])) (callee_name e)
      | (Some (Local, evs), Some (_, evs')) \<Rightarrow> Some (Local, evs @ evs')
      | _ \<Rightarrow> None)"

text \<open>A name that is not bound is an error (\<^verbatim>\<open>NameError\<close>), the result \<open>None\<close>.\<close>

primrec eval :: "expr \<Rightarrow> env \<Rightarrow> outcome" where
  "eval (Name n) env = map_option (\<lambda>v. (v, [])) (map_of env n)"
| "eval (Attribute e a) env = eval e env"
| "eval (IntLit i) env = Some (Local, [])"
| "eval (FloatLit q) env = Some (Local, [])"
| "eval (StrLit s) env = Some (Local, [])"
| "eval (BoolLit b) env = Some (Local, [])"
| "eval (ListLit es) env =
     map_option (Pair Local) (in_order (map (\<lambda>e. eval e env) es))"
| "eval (DictLit kvs) env =
     map_option (Pair Local)
       (in_order (concat (map (\<lambda>p. [fst p, snd p])
          (map (map_prod (\<lambda>k. eval k env) (\<lambda>v. eval v env)) kvs))))"
| "eval (Call f args kws) env =
     call f (eval f env)
       (in_order (map (\<lambda>e. eval e env) args @
                  map snd (map (map_prod id (\<lambda>e. eval e env)) kws)))"
| "eval (Subscript e k) env = subscript e (eval e env) (eval k env)"

type_synonym state = "env \<times> event list"

fun bind_all :: "string list \<Rightarrow> origin \<Rightarrow> env \<Rightarrow> env" where
  "bind_all [] v env = env"
| "bind_all (x # xs) v env = bind_all xs v ((x, v) # env)"

fun exec_stmt :: "stmt \<Rightarrow> state \<Rightarrow> state option" where
  "exec_stmt (ImportFrom m n) (env, trace) = Some ((n, Library m) # env, trace)"
| "exec_stmt (ImportAs m a) (env, trace) = Some ((a, Library m) # env, trace)"
| "exec_stmt (Assign xs e) (env, trace) =
     (case eval e env of
        None \<Rightarrow> None
      | Some (v, evs) \<Rightarrow> Some (bind_all xs v env, trace @ evs))"
| "exec_stmt (Expr e) (env, trace) =
     (case eval e env of
        None \<Rightarrow> None
      | Some (v, evs) \<Rightarrow> Some (env, trace @ evs))"

fun exec_stmts :: "stmt list \<Rightarrow> state \<Rightarrow> state option" where
  "exec_stmts [] st = Some st"
| "exec_stmts (s # ss) st =
     (case exec_stmt s st of None \<Rightarrow> None | Some st' \<Rightarrow> exec_stmts ss st')"

text \<open>The cells run from top to bottom; a markdown cell does nothing.\<close>

fun exec_cells :: "cell list \<Rightarrow> state \<Rightarrow> state option" where
  "exec_cells [] st = Some st"
| "exec_cells (Markdown t # cs) st = exec_cells cs st"
| "exec_cells (Code n ss out # cs) st =
     (case exec_stmts ss st of None \<Rightarrow> None | Some st' \<Rightarrow> exec_cells cs st')"

definition run :: "cell list \<Rightarrow> event list option" where
  "run nb = map_option snd (exec_cells nb ([], []))"

fun operation :: "event \<Rightarrow> string" where
  "operation (LibCall m c) = c"
| "operation (LibIndex m x) = x"

text \<open>The \<^verbatim>\<open>execution_count\<close> fields of the code cells, top to bottom.\<close>

fun execution_counts :: "cell list \<Rightarrow> nat list" where
  "execution_counts [] = []"
| "execution_counts (Markdown t # cs) = execution_counts cs"
| "execution_counts (Code n ss out # cs) = n # execution_counts cs"


subsection \<open>The arguments of the calls\<close>

text \<open>
  Every call that occurs in an expression, innermost first, as the name of its callee
  and its keyword arguments.
\<close>

primrec calls :: "expr \<Rightarrow> (string \<times> (string \<times> expr) list) list" where
  "calls (Name n) = []"
| "calls (Attribute e a) = calls e"
| "calls (IntLit i) = []"
| "calls (FloatLit q) = []"
| "calls (StrLit s) = []"
| "calls (BoolLit b) = []"
| "calls (ListLit es) = concat (map calls es)"
| "calls (DictLit kvs) =
     concat (map (\<lambda>p. fst p @ snd p) (map (map_prod calls calls) kvs))"
| "calls (Call f args kws) =
     calls f @ concat (map calls args) @
     concat (map snd (map (map_prod id calls) kws)) @
     (case callee_name f of None \<Rightarrow> [] | Some c \<Rightarrow> [(c, kws)])"
| "calls (Subscript e k) = calls e @ calls k"

fun stmt_calls :: "stmt \<Rightarrow> (string \<times> (string \<times> expr) list) list" where
  "stmt_calls (Assign xs e) = calls e"
| "stmt_calls (Expr e) = calls e"
| "stmt_calls _ = []"

fun cell_calls :: "cell \<Rightarrow> (string \<times> (string \<times> expr) list) list" where
  "cell_calls (Markdown t) = []"
| "cell_calls (Code n ss out) = concat (map stmt_calls ss)"


text \<open>The names of the calls that are given keyword \<open>k\<close>, with its value.\<close>

definition calls_with :: "cell list \<Rightarrow> string \<Rightarrow> (string \<times> expr) list" where
  "calls_with nb k =
     concat (map (\<lambda>c. case map_of (snd c) k of None \<Rightarrow> [] | Some v \<Rightarrow> [(fst c, v)])
               (concat (map cell_calls nb)))"




subsection \<open>Reading the table round by round\<close>


text \<open>
  The steps of the notebook as the specification lists them, (a) to (e), each with the
  library operations that belong to it.
\<close>

datatype step = GenerateData | SplitData | ConstructModel | Eliminate | RenderTable

definition spec_steps :: "(step \<times> string list) list" where
  "spec_steps =
     [ (GenerateData, [''make_classification'']),
       (SplitData, [''train_test_split'', ''StratifiedKFold'']),
       (ConstructModel, [''RandomForestClassifier'', ''RandomizedSearchCV'']),
       (Eliminate, [''ShapRFECV'', ''fit_compute'']),
       (RenderTable, [''report'']) ]"


section \<open>Properties\<close>


subsection \<open>The run of the script\<close>

text \<open>
  The script runs to its end without an unbound name, and these are the library
  operations it performs, in order, each with the module it is delegated to.
\<close>

lemma run_notebook: "run notebook = Some
  [LibCall ''sklearn.datasets'' ''make_classification'',
   LibCall ''sklearn.model_selection'' ''train_test_split'',
   LibCall ''sklearn.model_selection'' ''StratifiedKFold'',
   LibCall ''sklearn.ensemble'' ''RandomForestClassifier'',
   LibCall ''sklearn.model_selection'' ''RandomizedSearchCV'',
   LibCall ''numpy'' ''seed'',
   LibCall ''probatus.feature_elimination'' ''ShapRFECV'',
   LibCall ''probatus.feature_elimination'' ''fit_compute'',
   LibIndex ''probatus.feature_elimination'' ''report'']"
  by (simp add: run_def notebook_def call_def subscript_def)

text \<open>
  Claim C3, as amended. The notebook performs, in this order: (a) the generation of the
  data (\<^verbatim>\<open>make_classification\<close>), (b) the split (\<^verbatim>\<open>train_test_split\<close>, then the
  construction of the \<^verbatim>\<open>StratifiedKFold\<close> splitter), (c) the construction of the
  classifier (\<^verbatim>\<open>RandomForestClassifier\<close>) and of the search wrapper
  (\<^verbatim>\<open>RandomizedSearchCV\<close>), then one more step that the list (a) to (e) does not have,
  the seeding of numpy's global generator (\<^verbatim>\<open>np.random.seed\<close>), (d) the construction of
  \<^verbatim>\<open>ShapRFECV\<close> and its \<^verbatim>\<open>fit_compute\<close>, (e) the selection from \<^verbatim>\<open>report\<close> that renders
  the table. Every operation is delegated to an imported library, and the recorded
  execution counts of the code cells increase from top to bottom.
\<close>

theorem C3_steps_in_order:
  "run notebook = Some
     [LibCall ''sklearn.datasets'' ''make_classification'',
      LibCall ''sklearn.model_selection'' ''train_test_split'',
      LibCall ''sklearn.model_selection'' ''StratifiedKFold'',
      LibCall ''sklearn.ensemble'' ''RandomForestClassifier'',
      LibCall ''sklearn.model_selection'' ''RandomizedSearchCV'',
      LibCall ''numpy'' ''seed'',
      LibCall ''probatus.feature_elimination'' ''ShapRFECV'',
      LibCall ''probatus.feature_elimination'' ''fit_compute'',
      LibIndex ''probatus.feature_elimination'' ''report''] \<and>
   map_option (map operation) (run notebook) =
     Some (concat (map snd (take 3 spec_steps)) @ [''seed''] @
           concat (map snd (drop 3 spec_steps))) \<and>
   map fst spec_steps = [GenerateData, SplitData, ConstructModel, Eliminate, RenderTable] \<and>
   execution_counts notebook = [8, 9, 10, 15, 16, 17, 19] \<and>
   sorted_wrt (<) (execution_counts notebook)"
  by (simp add: run_notebook spec_steps_def) (simp add: notebook_def)

text \<open>
  Claim C3 as it is written, with exactly the steps (a) to (e), fails: the sixth
  operation of the run is \<^verbatim>\<open>np.random.seed\<close>, which belongs to none of them.
\<close>

theorem C3_counterexample:
  "map_option (map operation) (run notebook) \<noteq> Some (concat (map snd spec_steps)) \<and>
   LibCall ''numpy'' ''seed'' \<in> set (the (run notebook)) \<and>
   ''seed'' \<notin> set (concat (map snd spec_steps))"
  by (simp add: run_notebook spec_steps_def)

subsection \<open>Seeds and parallel jobs\<close>

text \<open>
  Every call of the script that takes a \<^verbatim>\<open>random_state\<close> is given 42, and the only call
  that is given \<^verbatim>\<open>n_jobs\<close> is \<^verbatim>\<open>ShapRFECV\<close>, with 3. What the libraries do with either
  is not in the file.
\<close>

lemma random_state_fixed:
  "calls_with notebook ''random_state'' =
     [(''make_classification'', IntLit 42), (''train_test_split'', IntLit 42),
      (''StratifiedKFold'', IntLit 42), (''RandomForestClassifier'', IntLit 42),
      (''RandomizedSearchCV'', IntLit 42), (''ShapRFECV'', IntLit 42)]"
  by (simp add: calls_with_def notebook_def)

lemma n_jobs_passed_once:
  "calls_with notebook ''n_jobs'' = [(''ShapRFECV'', IntLit 3)]"
  by (simp add: calls_with_def notebook_def)

subsection \<open>The shape of the table\<close>



subsection \<open>The rounds of the elimination\<close>









end
